theory Spec2Isabelle
  imports Complex_Main
begin

section \<open>Data model\<close>

text \<open>
  The economy bot keeps six relations in its store (scripts/001_create_economy_tables.sql):
  profiles, items, inventory, transactions, cooldowns and server_settings. The command
  handlers read and write them through the helpers of database.js. JavaScript numbers
  that hold amounts of coins, experience and timestamps are integers (\<open>bigint\<close>, \<open>int\<close>
  columns, milliseconds since the epoch); the fractional numbers (effect values, rates,
  the draws of \<open>Math.random()\<close>) are exact rationals, so the rounding of doubles is
  not part of the model. \<open>Math.floor\<close> is \<open>\<lfloor>_\<rfloor>\<close>, and \<open>Math.floor (n / 1000)\<close> on an
  integer \<open>n\<close> is \<open>n div 1000\<close>. Failures of the store itself (the network, a
  constraint) are outside the model; a call that raises because its row is missing
  returns \<open>None\<close>.
\<close>

record effect =
  etype :: string
  evalue :: rat
  ecommand :: string
  eeffect :: string

record item =
  iid :: string
  iname :: string
  price :: int
  ieffect :: "effect option"

record inv_row =
  inv_id :: string
  inv_user_id :: string
  inv_item_id :: string
  quantity :: int

record profile =
  username :: string
  coins :: int
  xp :: int
  level :: int
  daily_streak :: int
  last_daily :: "int option"
  last_work :: "int option"
  rob_attempts :: int
  updated_at :: int

datatype json = JNum rat | JBool bool | JStr string | JNull | JEffect effect

record transaction =
  t_user_id :: string
  t_type :: string
  t_amount :: "int option"
  t_target_user_id :: "string option"
  t_item_id :: "string option"
  t_metadata :: "(string \<times> json) list option"
  t_created_at :: int

record settings =
  daily_amount :: int
  daily_cooldown_hours :: int
  work_min_amount :: int
  work_max_amount :: int
  work_cooldown_hours :: int
  rob_success_rate :: rat
  rob_cooldown_hours :: int
  rob_penalty_percent :: rat
  xp_multiplier :: rat

text \<open>The user of an interaction, as discord.js presents it.\<close>

record user =
  uid :: string
  uname :: string
  bot :: bool

record state =
  profiles :: "string \<rightharpoonup> profile"
  items :: "item list"
  inventory :: "inv_row list"
  transactions :: "transaction list"
  cooldowns :: "string \<times> string \<rightharpoonup> int"
  server_settings :: settings

text \<open>
  A handler ends with one reply. The replies that report a refusal or a failure are the
  errors; the embeds that report a completed action are the successes, with the numbers
  they display.
\<close>

datatype error =
    OnCooldown int
  | AlreadyClaimed
  | CannotPaySelf
  | CannotPayBot
  | NotEnoughCoins int
  | CannotRobSelf
  | CannotRobBot
  | TargetTooPoor
  | RobberTooPoor
  | ItemNotFound
  | CannotAfford int int
  | NotInInventory
  | CannotBeUsed
  | StoreError

datatype usage =
    GainedXP rat int bool
  | CoinBonus int
  | CooldownReduced string rat
  | UsedSuccessfully

datatype reply =
    DailyClaimed int int int int int
  | WorkComplete int int int int "string option" int rat
  | PaymentSuccessful int int int
  | RobberySuccessful int int int
  | RobberyFailed int int rat
  | PurchaseSuccessful int int
  | ItemSold int int
  | ItemUsed usage
  | NoReply

type_synonym outcome = "(error + reply) \<times> state"

section \<open>database.js\<close>

text \<open>
  \<open>getProfile\<close> creates the profile on first reference, with the defaults of the
  profiles table. \<open>updateProfile\<close> applies the given fields and stamps \<open>updated_at\<close>;
  its \<open>.single()\<close> raises when no row matches, which is the value \<open>None\<close>.
\<close>

definition newProfile :: "string \<Rightarrow> int \<Rightarrow> profile" where
  "newProfile userName now =
     \<lparr>username = userName, coins = 1000, xp = 0, level = 1, daily_streak = 0,
      last_daily = None, last_work = None, rob_attempts = 0, updated_at = now\<rparr>"

definition getProfile :: "string \<Rightarrow> string \<Rightarrow> int \<Rightarrow> state \<Rightarrow> profile \<times> state" where
  "getProfile userId userName now st =
     (case profiles st userId of
        Some data \<Rightarrow> (data, st)
      | None \<Rightarrow>
          (newProfile userName now,
           st\<lparr>profiles := (profiles st)(userId \<mapsto> newProfile userName now)\<rparr>))"

definition updateProfile ::
    "string \<Rightarrow> (profile \<Rightarrow> profile) \<Rightarrow> int \<Rightarrow> state \<Rightarrow> state option" where
  "updateProfile userId updates now st =
     (case profiles st userId of
        None \<Rightarrow> None
      | Some p \<Rightarrow>
          Some (st\<lparr>profiles := (profiles st)(userId \<mapsto> (updates p)\<lparr>updated_at := now\<rparr>)\<rparr>))"

text \<open>
  \<open>logTransaction\<close> stores \<open>transaction.amount || null\<close>: an amount of zero is
  falsy and is stored as null. A failed insert is only printed, so the function always
  returns.
\<close>

definition or_null :: "int option \<Rightarrow> int option" where
  "or_null a = (case a of Some n \<Rightarrow> (if n = 0 then None else Some n) | None \<Rightarrow> None)"

definition logTransaction ::
    "string \<Rightarrow> string \<Rightarrow> int option \<Rightarrow> string option \<Rightarrow> string option \<Rightarrow>
     (string \<times> json) list option \<Rightarrow> int \<Rightarrow> state \<Rightarrow> state" where
  "logTransaction userId ty amount targetUserId itemId metadata now st =
     st\<lparr>transactions := transactions st @
        [\<lparr>t_user_id = userId, t_type = ty, t_amount = or_null amount,
          t_target_user_id = targetUserId, t_item_id = itemId,
          t_metadata = metadata, t_created_at = now\<rparr>]\<rparr>"

text \<open>
  \<open>checkCooldown\<close> returns the expiry when the cooldown is active (\<open>onCooldown\<close>), and
  deletes a row that has expired. \<open>setCooldown\<close> upserts the row; \<open>Date.setHours\<close>
  keeps the whole hours of a duration.
\<close>

definition checkCooldown :: "string \<Rightarrow> string \<Rightarrow> int \<Rightarrow> state \<Rightarrow> int option \<times> state" where
  "checkCooldown userId command now st =
     (case cooldowns st (userId, command) of
        None \<Rightarrow> (None, st)
      | Some expiresAt \<Rightarrow>
          if expiresAt > now then (Some expiresAt, st)
          else (None, st\<lparr>cooldowns := (cooldowns st)((userId, command) := None)\<rparr>))"

definition setCooldown :: "string \<Rightarrow> string \<Rightarrow> rat \<Rightarrow> int \<Rightarrow> state \<Rightarrow> state" where
  "setCooldown userId command hours now st =
     st\<lparr>cooldowns := (cooldowns st)((userId, command) \<mapsto> now + \<lfloor>hours\<rfloor> * 3600000)\<rparr>"

definition getServerSettings :: "state \<Rightarrow> settings" where
  "getServerSettings st = server_settings st"

text \<open>
  \<open>getInventory\<close> selects the rows of the user, each joined with its item
  (\<open>invItem.items\<close>; the foreign key of the row makes sure that the item exists).
  \<open>getItems\<close> returns the catalogue in the order of the query. An inventory row is
  found by user and item, a pair that is unique in the table.
\<close>

definition getInventory :: "string \<Rightarrow> state \<Rightarrow> (inv_row \<times> item) list" where
  "getInventory userId st =
     List.map_filter
       (\<lambda>r. if inv_user_id r = userId
            then map_option (Pair r) (find (\<lambda>i. iid i = inv_item_id r) (items st))
            else None)
       (inventory st)"

definition getItems :: "state \<Rightarrow> item list" where
  "getItems st = items st"

definition addToInventory :: "string \<Rightarrow> string \<Rightarrow> string \<Rightarrow> int \<Rightarrow> state \<Rightarrow> state" where
  "addToInventory newId userId itemId qty st =
     (case find (\<lambda>r. inv_user_id r = userId \<and> inv_item_id r = itemId) (inventory st) of
        Some existing \<Rightarrow>
          st\<lparr>inventory :=
               map (\<lambda>r. if inv_user_id r = userId \<and> inv_item_id r = itemId
                         then r\<lparr>quantity := quantity existing + qty\<rparr> else r)
                 (inventory st)\<rparr>
      | None \<Rightarrow>
          st\<lparr>inventory := inventory st @
               [\<lparr>inv_id = newId, inv_user_id = userId, inv_item_id = itemId, quantity = qty\<rparr>]\<rparr>)"

definition removeFromInventory :: "string \<Rightarrow> string \<Rightarrow> int \<Rightarrow> state \<Rightarrow> state option" where
  "removeFromInventory userId itemId qty st =
     (case find (\<lambda>r. inv_user_id r = userId \<and> inv_item_id r = itemId) (inventory st) of
        None \<Rightarrow> None
      | Some existing \<Rightarrow>
          if quantity existing \<le> qty
          then Some (st\<lparr>inventory :=
                 filter (\<lambda>r. \<not> (inv_user_id r = userId \<and> inv_item_id r = itemId)) (inventory st)\<rparr>)
          else Some (st\<lparr>inventory :=
                 map (\<lambda>r. if inv_user_id r = userId \<and> inv_item_id r = itemId
                           then r\<lparr>quantity := quantity existing - qty\<rparr> else r)
                   (inventory st)\<rparr>))"

text \<open>
  A store call that raises leaves the store as it was; inside a \<open>Promise.all\<close> the
  other calls still run, and the handler then answers with its error reply.
\<close>

definition attempt :: "(state \<Rightarrow> state option) \<Rightarrow> state \<Rightarrow> bool \<times> state" where
  "attempt f st = (case f st of None \<Rightarrow> (False, st) | Some st' \<Rightarrow> (True, st'))"

section \<open>commands/daily.js and the standalone dailyCommand\<close>

definition hoursLeft :: "int \<Rightarrow> int \<Rightarrow> int" where
  "hoursLeft expiresAt now = \<lceil>(of_int (expiresAt - now) :: rat) / 1000 / 60 / 60\<rceil>"

definition hoursSince :: "int \<Rightarrow> int \<Rightarrow> rat" where
  "hoursSince now lastDaily = of_int (now - lastDaily) / 1000 / 60 / 60"

text \<open>
  The streak of the command module: \<open>None\<close> is its early return "You already claimed
  your daily reward!".
\<close>

definition newStreak_module :: "int \<Rightarrow> profile \<Rightarrow> int option" where
  "newStreak_module now profile =
     (case last_daily profile of
        None \<Rightarrow> Some 0
      | Some lastDaily \<Rightarrow>
          if hoursSince now lastDaily \<ge> 24 \<and> hoursSince now lastDaily \<le> 48
          then Some (daily_streak profile + 1)
          else if hoursSince now lastDaily < 24 then None
          else Some 0)"


text \<open>
  From "Calculate reward with streak bonus" on, the two files are the same text: the
  reward, the experience, the update of the profile, the cooldown and the audit record.
\<close>

definition claimDaily :: "int \<Rightarrow> string \<Rightarrow> profile \<Rightarrow> settings \<Rightarrow> int \<Rightarrow> state \<Rightarrow> outcome" where
  "claimDaily now userId profile setts newStreak st =
     (let baseAmount = daily_amount setts;
          streakBonus = min (newStreak * 50) 500;
          totalAmount = baseAmount + streakBonus;
          xpGain = 10;
          newXP = xp profile + xpGain;
          newLevel = newXP div 1000 + 1
      in case updateProfile userId
                (\<lambda>p. p\<lparr>coins := coins profile + totalAmount, xp := newXP, level := newLevel,
                       daily_streak := newStreak, last_daily := Some now\<rparr>) now st of
           None \<Rightarrow> (Inl StoreError, st)
         | Some st1 \<Rightarrow>
             (Inr (DailyClaimed totalAmount xpGain streakBonus newStreak newLevel),
              logTransaction userId ''daily'' (Some totalAmount) None None
                (Some [(''streak'', JNum (of_int newStreak)), (''xp_gain'', JNum (of_int xpGain))])
                now
                (setCooldown userId ''daily'' (of_int (daily_cooldown_hours setts)) now st1)))"

definition daily :: "int \<Rightarrow> user \<Rightarrow> state \<Rightarrow> outcome" where
  "daily now usr st =
     (case checkCooldown (uid usr) ''daily'' now st of
        (Some expiresAt, st1) \<Rightarrow> (Inl (OnCooldown (hoursLeft expiresAt now)), st1)
      | (None, st1) \<Rightarrow>
          (case getProfile (uid usr) (uname usr) now st1 of
             (profile, st2) \<Rightarrow>
               (case newStreak_module now profile of
                  None \<Rightarrow> (Inl AlreadyClaimed, st2)
                | Some newStreak \<Rightarrow>
                    claimDaily now (uid usr) profile (getServerSettings st2) newStreak st2)))"


section \<open>commands/work.js\<close>

definition minutesLeft :: "int \<Rightarrow> int \<Rightarrow> int" where
  "minutesLeft expiresAt now = \<lceil>(of_int (expiresAt - now) :: rat) / 1000 / 60\<rceil>"

text \<open>
  The two loops over the inventory. The first keeps the greatest \<open>work_boost\<close> value
  seen so far and the name of its tool, starting from 0 and no tool; the second lowers
  the cooldown item by item.
\<close>

fun boostLoop :: "(inv_row \<times> item) list \<Rightarrow> rat \<Rightarrow> string option \<Rightarrow> rat \<times> string option" where
  "boostLoop [] totalBoost bestTool = (totalBoost, bestTool)"
| "boostLoop (invItem # rest) totalBoost bestTool =
     (case ieffect (snd invItem) of
        Some e \<Rightarrow>
          if etype e = ''work_boost'' \<and> evalue e > totalBoost
          then boostLoop rest (evalue e) (Some (iname (snd invItem)))
          else boostLoop rest totalBoost bestTool
      | None \<Rightarrow> boostLoop rest totalBoost bestTool)"

fun cooldownLoop :: "(inv_row \<times> item) list \<Rightarrow> rat \<Rightarrow> rat" where
  "cooldownLoop [] cooldownHours = cooldownHours"
| "cooldownLoop (invItem # rest) cooldownHours =
     (case ieffect (snd invItem) of
        Some e \<Rightarrow>
          if etype e = ''cooldown_reduction'' \<and> ecommand e = ''work''
          then cooldownLoop rest (max 1 (cooldownHours - evalue e))
          else cooldownLoop rest cooldownHours
      | None \<Rightarrow> cooldownLoop rest cooldownHours)"

definition baseAmount_of :: "settings \<Rightarrow> rat \<Rightarrow> int" where
  "baseAmount_of setts random =
     \<lfloor>random * of_int (work_max_amount setts - work_min_amount setts + 1)
        + of_int (work_min_amount setts)\<rfloor>"

definition boostAmount_of :: "int \<Rightarrow> rat \<Rightarrow> int" where
  "boostAmount_of baseAmount totalBoost = \<lfloor>of_int baseAmount * totalBoost\<rfloor>"

definition work :: "int \<Rightarrow> rat \<Rightarrow> user \<Rightarrow> state \<Rightarrow> outcome" where
  "work now random usr st =
     (case checkCooldown (uid usr) ''work'' now st of
        (Some expiresAt, st1) \<Rightarrow> (Inl (OnCooldown (minutesLeft expiresAt now)), st1)
      | (None, st1) \<Rightarrow>
          (case getProfile (uid usr) (uname usr) now st1 of
             (profile, st2) \<Rightarrow>
               (let setts = getServerSettings st2;
                    invItems = getInventory (uid usr) st2;
                    baseAmount = baseAmount_of setts random;
                    totalBoost = fst (boostLoop invItems 0 None);
                    bestTool = snd (boostLoop invItems 0 None);
                    boostAmount = boostAmount_of baseAmount totalBoost;
                    totalAmount = baseAmount + boostAmount;
                    xpGain = totalAmount div 10;
                    newXP = xp profile + xpGain;
                    newLevel = newXP div 1000 + 1
                in case updateProfile (uid usr)
                          (\<lambda>p. p\<lparr>coins := coins profile + totalAmount, xp := newXP,
                                 level := newLevel, last_work := Some now\<rparr>) now st2 of
                     None \<Rightarrow> (Inl StoreError, st2)
                   | Some st3 \<Rightarrow>
                       (let cooldownHours =
                              cooldownLoop invItems (of_int (work_cooldown_hours setts))
                        in (Inr (WorkComplete totalAmount xpGain baseAmount boostAmount bestTool
                                   newLevel cooldownHours),
                            logTransaction (uid usr) ''work'' (Some totalAmount) None None
                              (Some [(''base'', JNum (of_int baseAmount)),
                                     (''boost'', JNum (of_int boostAmount)),
                                     (''tool'', case bestTool of None \<Rightarrow> JNull | Some t \<Rightarrow> JStr t),
                                     (''xp_gain'', JNum (of_int xpGain))])
                              now
                              (setCooldown (uid usr) ''work'' cooldownHours now st3))))))"

section \<open>commands/pay.js\<close>

text \<open>
  The amount is an integer option of the slash command, declared with
  \<open>setMinValue(1)\<close>. The two updates run in one \<open>Promise.all\<close>, and so do the two audit
  records after them.
\<close>

definition pay :: "int \<Rightarrow> user \<Rightarrow> user \<Rightarrow> int \<Rightarrow> state \<Rightarrow> outcome" where
  "pay now sender recipient amount st =
     (if uid sender = uid recipient then (Inl CannotPaySelf, st)
      else if bot recipient then (Inl CannotPayBot, st)
      else
        (case getProfile (uid sender) (uname sender) now st of
           (senderProfile, st1) \<Rightarrow>
        (case getProfile (uid recipient) (uname recipient) now st1 of
           (recipientProfile, st2) \<Rightarrow>
             if coins senderProfile < amount
             then (Inl (NotEnoughCoins (coins senderProfile)), st2)
             else
               (case attempt (updateProfile (uid sender)
                        (\<lambda>p. p\<lparr>coins := coins senderProfile - amount\<rparr>) now) st2 of
                  (ok1, st3) \<Rightarrow>
               (case attempt (updateProfile (uid recipient)
                        (\<lambda>p. p\<lparr>coins := coins recipientProfile + amount\<rparr>) now) st3 of
                  (ok2, st4) \<Rightarrow>
                    if ok1 \<and> ok2
                    then (Inr (PaymentSuccessful amount (coins senderProfile - amount)
                                 (coins recipientProfile + amount)),
                          logTransaction (uid recipient) ''pay'' (Some amount)
                            (Some (uid sender)) None None now
                            (logTransaction (uid sender) ''pay'' (Some (- amount))
                               (Some (uid recipient)) None None now st4))
                    else (Inl StoreError, st4))))))"

section \<open>commands/rob.js\<close>

fun defenseLoop :: "(inv_row \<times> item) list \<Rightarrow> rat \<Rightarrow> rat" where
  "defenseLoop [] targetDefense = targetDefense"
| "defenseLoop (invItem # rest) targetDefense =
     (case ieffect (snd invItem) of
        Some e \<Rightarrow>
          if etype e = ''rob_defense''
          then defenseLoop rest (max targetDefense (evalue e))
          else defenseLoop rest targetDefense
      | None \<Rightarrow> defenseLoop rest targetDefense)"

text \<open>
  The handler fetches both inventories; the rate is computed with the robber's
  inventory in scope, and reads the target's.
\<close>

definition actualSuccessRate ::
    "settings \<Rightarrow> (inv_row \<times> item) list \<Rightarrow> (inv_row \<times> item) list \<Rightarrow> rat" where
  "actualSuccessRate setts robberInventory targetInventory =
     (let targetDefense = defenseLoop targetInventory 0;
          baseSuccessRate = rob_success_rate setts
      in max (1 / 10) (baseSuccessRate - targetDefense))"

text \<open>
  The amount of a successful robbery, 10 to 30 percent of the target's coins, and the
  fine of a failed one.
\<close>

definition robAmount_of :: "profile \<Rightarrow> rat \<Rightarrow> int" where
  "robAmount_of targetProfile random =
     (let percentage = random * (2 / 10) + 1 / 10
      in \<lfloor>of_int (coins targetProfile) * percentage\<rfloor>)"

definition penaltyAmount_of :: "profile \<Rightarrow> settings \<Rightarrow> int" where
  "penaltyAmount_of robberProfile setts =
     \<lfloor>of_int (coins robberProfile) * rob_penalty_percent setts\<rfloor>"

definition rob :: "int \<Rightarrow> rat \<Rightarrow> rat \<Rightarrow> user \<Rightarrow> user \<Rightarrow> state \<Rightarrow> outcome" where
  "rob now random1 random2 robber target st =
     (if uid robber = uid target then (Inl CannotRobSelf, st)
      else if bot target then (Inl CannotRobBot, st)
      else
        (case checkCooldown (uid robber) ''rob'' now st of
           (Some expiresAt, st1) \<Rightarrow> (Inl (OnCooldown (hoursLeft expiresAt now)), st1)
         | (None, st1) \<Rightarrow>
        (case getProfile (uid robber) (uname robber) now st1 of
           (robberProfile, st2) \<Rightarrow>
        (case getProfile (uid target) (uname target) now st2 of
           (targetProfile, st3) \<Rightarrow>
             (let setts = getServerSettings st3;
                  robberInventory = getInventory (uid robber) st3;
                  targetInventory = getInventory (uid target) st3
              in if coins targetProfile < 500 then (Inl TargetTooPoor, st3)
                 else if coins robberProfile < 100 then (Inl RobberTooPoor, st3)
                 else
                   (let targetDefense = defenseLoop targetInventory 0;
                        success = (random1 < actualSuccessRate setts robberInventory targetInventory);
                        robAmount = robAmount_of targetProfile random2
                    in if success
                       then
                         (case attempt (updateProfile (uid robber)
                                  (\<lambda>p. p\<lparr>coins := coins robberProfile + robAmount,
                                         rob_attempts := rob_attempts robberProfile + 1\<rparr>) now) st3 of
                            (ok1, st4) \<Rightarrow>
                         (case attempt (updateProfile (uid target)
                                  (\<lambda>p. p\<lparr>coins := coins targetProfile - robAmount\<rparr>) now) st4 of
                            (ok2, st5) \<Rightarrow>
                              if ok1 \<and> ok2
                              then (Inr (RobberySuccessful robAmount
                                           (coins robberProfile + robAmount)
                                           (coins targetProfile - robAmount)),
                                    setCooldown (uid robber) ''rob''
                                      (of_int (rob_cooldown_hours setts)) now
                                      (logTransaction (uid robber) ''rob'' (Some robAmount)
                                         (Some (uid target)) None
                                         (Some [(''success'', JBool True),
                                                (''defense'', JNum targetDefense)]) now st5))
                              else (Inl StoreError, st5)))
                       else
                         (let penaltyAmount = penaltyAmount_of robberProfile setts
                          in case updateProfile (uid robber)
                                    (\<lambda>p. p\<lparr>coins := coins robberProfile - penaltyAmount,
                                           rob_attempts := rob_attempts robberProfile + 1\<rparr>) now st3 of
                               None \<Rightarrow> (Inl StoreError, st3)
                             | Some st4 \<Rightarrow>
                                 (Inr (RobberyFailed penaltyAmount
                                         (coins robberProfile - penaltyAmount) targetDefense),
                                  setCooldown (uid robber) ''rob''
                                    (of_int (rob_cooldown_hours setts)) now
                                    (logTransaction (uid robber) ''rob'' (Some (- penaltyAmount))
                                       (Some (uid target)) None
                                       (Some [(''success'', JBool False),
                                              (''defense'', JNum targetDefense)]) now st4)))))))))"

section \<open>commands/shop.js: the purchase button\<close>

text \<open>
  The store generates the identifier of a new inventory row; the model takes it as the
  argument \<open>newId\<close>. The three store calls of a purchase run in one \<open>Promise.all\<close>.
\<close>

definition shop_handleButton :: "int \<Rightarrow> string \<Rightarrow> user \<Rightarrow> string \<Rightarrow> state \<Rightarrow> outcome" where
  "shop_handleButton now newId usr itemId st =
     (case find (\<lambda>i. iid i = itemId) (getItems st) of
        None \<Rightarrow> (Inl ItemNotFound, st)
      | Some item \<Rightarrow>
          (case getProfile (uid usr) (uname usr) now st of
             (profile, st1) \<Rightarrow>
               if coins profile < price item
               then (Inl (CannotAfford (price item) (coins profile)), st1)
               else
                 (case attempt (updateProfile (uid usr)
                          (\<lambda>p. p\<lparr>coins := coins profile - price item\<rparr>) now) st1 of
                    (ok, st2) \<Rightarrow>
                      (if ok
                       then Inr (PurchaseSuccessful (price item) (coins profile - price item))
                       else Inl StoreError,
                       logTransaction (uid usr) ''shop_buy'' (Some (- price item)) None
                         (Some itemId) None now
                         (addToInventory newId (uid usr) itemId 1 st2)))))"

section \<open>commands/inventory.js: the sell and use buttons\<close>

text \<open>
  The consumable of the use button. \<open>xp_grant\<close> adds the value of the effect to the
  experience and recomputes the level; the \<open>xp\<close> column is a \<open>bigint\<close>, so the store
  refuses a sum that is not an integer and the update raises. \<open>daily_boost\<close> adds
  250 coins. \<open>cooldown_restore\<close> and every other kind only produce their text.
\<close>

definition applyConsumable ::
    "int \<Rightarrow> string \<Rightarrow> profile \<Rightarrow> effect \<Rightarrow> state \<Rightarrow> (usage \<times> state) option" where
  "applyConsumable now userId profile e st =
     (if eeffect e = ''xp_grant'' then
        (let newXP = of_int (xp profile) + evalue e;
             newLevel = \<lfloor>newXP / 1000\<rfloor> + 1
         in if of_int \<lfloor>newXP\<rfloor> = newXP
            then map_option (Pair (GainedXP (evalue e) newLevel (newLevel > level profile)))
                   (updateProfile userId (\<lambda>p. p\<lparr>xp := \<lfloor>newXP\<rfloor>, level := newLevel\<rparr>) now st)
            else None)
      else if eeffect e = ''daily_boost'' then
        (let boostAmount = 250
         in map_option (Pair (CoinBonus boostAmount))
              (updateProfile userId (\<lambda>p. p\<lparr>coins := coins profile + boostAmount\<rparr>) now st))
      else if eeffect e = ''cooldown_restore'' then
        Some (CooldownReduced (ecommand e) (evalue e), st)
      else Some (UsedSuccessfully, st))"

definition sellPrice_of :: "item \<Rightarrow> int" where
  "sellPrice_of item = \<lfloor>of_int (price item) * (6 / 10 :: rat)\<rfloor>"

definition inventory_handleButton ::
    "int \<Rightarrow> user \<Rightarrow> string \<Rightarrow> string \<Rightarrow> state \<Rightarrow> outcome" where
  "inventory_handleButton now usr action invItemId st =
     (case find (\<lambda>i. inv_id (fst i) = invItemId) (getInventory (uid usr) st) of
        None \<Rightarrow> (Inl NotInInventory, st)
      | Some invItem \<Rightarrow>
          (let item = snd invItem
           in if action = ''sell'' then
                (let sellPrice = sellPrice_of item
                 in case getProfile (uid usr) (uname usr) now st of
                      (profile, st1) \<Rightarrow>
                    (case attempt (updateProfile (uid usr)
                             (\<lambda>p. p\<lparr>coins := coins profile + sellPrice\<rparr>) now) st1 of
                       (ok1, st2) \<Rightarrow>
                    (case attempt (removeFromInventory (uid usr) (iid item) 1) st2 of
                       (ok2, st3) \<Rightarrow>
                         (if ok1 \<and> ok2
                          then Inr (ItemSold sellPrice (coins profile + sellPrice))
                          else Inl StoreError,
                          logTransaction (uid usr) ''shop_sell'' (Some sellPrice) None
                            (Some (iid item)) None now st3))))
              else if action = ''use'' then
                (case ieffect item of
                   None \<Rightarrow> (Inl CannotBeUsed, st)
                 | Some e \<Rightarrow>
                     if etype e \<noteq> ''consumable'' then (Inl CannotBeUsed, st)
                     else
                       (case getProfile (uid usr) (uname usr) now st of
                          (profile, st1) \<Rightarrow>
                       (case applyConsumable now (uid usr) profile e st1 of
                          None \<Rightarrow> (Inl StoreError, st1)
                        | Some (resultText, st2) \<Rightarrow>
                            (case removeFromInventory (uid usr) (iid item) 1 st2 of
                               None \<Rightarrow> (Inl StoreError, st2)
                             | Some st3 \<Rightarrow>
                                 (Inr (ItemUsed resultText),
                                  logTransaction (uid usr) ''use_item'' None None
                                    (Some (iid item)) (Some [(''effect'', JEffect e)])
                                    now st3)))))
              else (Inr NoReply, st)))"

section \<open>The actions of the engine\<close>

text \<open>
  One request to the bot: the command or button, its user and options, and what the
  handler draws from outside (the random numbers, the identifier of a new row). The
  clock reading \<open>now\<close> is the same throughout one request.
\<close>

datatype action =
    Daily user
  | Work user rat
  | Pay user user int
  | Rob user user rat rat
  | ShopBuy user string string
  | InventoryButton user string string

fun step :: "int \<Rightarrow> action \<Rightarrow> state \<Rightarrow> outcome" where
  "step now (Daily usr) st = daily now usr st"
| "step now (Work usr random) st = work now random usr st"
| "step now (Pay sender recipient amount) st = pay now sender recipient amount st"
| "step now (Rob robber target random1 random2) st = rob now random1 random2 robber target st"
| "step now (ShopBuy usr itemId newId) st = shop_handleButton now newId usr itemId st"
| "step now (InventoryButton usr action invItemId) st =
     inventory_handleButton now usr action invItemId st"


section \<open>Notions of the specification\<close>

text \<open>
  The profile that the daily handler reads once the cooldown check has passed, and the
  streak that a claim has stored: \<open>None\<close> when the handler refused or failed.
\<close>

definition dailyProfile :: "int \<Rightarrow> user \<Rightarrow> state \<Rightarrow> profile" where
  "dailyProfile now usr st =
     fst (getProfile (uid usr) (uname usr) now (snd (checkCooldown (uid usr) ''daily'' now st)))"

definition persistedStreak :: "outcome \<Rightarrow> string \<Rightarrow> int option" where
  "persistedStreak out userId =
     (case fst out of
        Inl e \<Rightarrow> None
      | Inr r \<Rightarrow> map_option daily_streak (profiles (snd out) userId))"


subsection \<open>Example data\<close>

text \<open>
  The default settings of the settings table, and a user whose last claim was at time 0,
  with a streak of 3 and 995 experience points.
\<close>

definition settings0 :: settings where
  "settings0 =
     \<lparr>daily_amount = 500, daily_cooldown_hours = 24, work_min_amount = 100,
      work_max_amount = 500, work_cooldown_hours = 4, rob_success_rate = 4 / 10,
      rob_cooldown_hours = 12, rob_penalty_percent = 2 / 10, xp_multiplier = 1\<rparr>"

definition alice :: user where
  "alice = \<lparr>uid = ''1'', uname = ''alice'', bot = False\<rparr>"


definition alice_profile :: profile where
  "alice_profile =
     \<lparr>username = ''alice'', coins = 1000, xp = 995, level = 1, daily_streak = 3,
      last_daily = Some 0, last_work = None, rob_attempts = 0, updated_at = 0\<rparr>"

definition state0 :: state where
  "state0 =
     \<lparr>profiles = [''1'' \<mapsto> alice_profile], items = [], inventory = [], transactions = [],
      cooldowns = Map.empty, server_settings = settings0\<rparr>"

subsection \<open>The level of a profile\<close>

text \<open>
  The level formula, the invariant of one account (an account without a profile has
  nothing to violate), and what one action may do to the experience and the level of an
  account: store a level that fits the formula, or leave both as they were.
\<close>

definition level_ok :: "profile \<Rightarrow> bool" where
  "level_ok p = (level p = xp p div 1000 + 1)"

definition level_invariant :: "state \<Rightarrow> string \<Rightarrow> bool" where
  "level_invariant st u = (case profiles st u of None \<Rightarrow> True | Some p \<Rightarrow> level_ok p)"

definition level_step :: "profile option \<Rightarrow> profile option \<Rightarrow> bool" where
  "level_step before after =
     (case after of
        None \<Rightarrow> True
      | Some p' \<Rightarrow>
          level_ok p' \<or>
          (case before of None \<Rightarrow> False | Some p \<Rightarrow> xp p' = xp p \<and> level p' = level p))"

subsection \<open>The experience multiplier\<close>

text \<open>
  The same store with another value in the \<open>xp_multiplier\<close> column of the settings, and
  the experience of an account (0 before its profile exists).
\<close>

definition with_xp_multiplier :: "rat \<Rightarrow> state \<Rightarrow> state" where
  "with_xp_multiplier m st = st\<lparr>server_settings := (server_settings st)\<lparr>xp_multiplier := m\<rparr>\<rparr>"

definition xp_of :: "state \<Rightarrow> string \<Rightarrow> int" where
  "xp_of st u = (case profiles st u of None \<Rightarrow> 0 | Some p \<Rightarrow> xp p)"

subsection \<open>Balances\<close>

text \<open>
  The balance of an account is the number of coins that a handler reads for it: the
  coins of its profile, and the starting balance of 1000 coins for a user whose profile
  is yet to be created by the first \<open>getProfile\<close>.
\<close>

definition balance :: "state \<Rightarrow> string \<Rightarrow> int" where
  "balance st u = (case profiles st u of None \<Rightarrow> 1000 | Some p \<Rightarrow> coins p)"

subsection \<open>Accounts and settings in range\<close>





subsection \<open>Effects held in an inventory\<close>








subsection \<open>Example inventories\<close>

text \<open>
  Alice with two tools that boost work by 0.10 and 0.25 and two items that reduce the
  work cooldown by 2 and 3 hours; the example store with a work cooldown of 0 hours; and
  Bob with a shield of defense 0.90 while Alice, the robber, holds a dagger of defense
  0.30.
\<close>

definition tool_item :: "string \<Rightarrow> string \<Rightarrow> int \<Rightarrow> string \<Rightarrow> rat \<Rightarrow> item" where
  "tool_item i n p ty v =
     \<lparr>iid = i, iname = n, price = p,
      ieffect = Some \<lparr>etype = ty, evalue = v, ecommand = ''work'', eeffect = []\<rparr>\<rparr>"




text \<open>Alice with 3000 coins in front of a catalogue that sells a fishing rod for 2500.\<close>

definition state_shop :: state where
  "state_shop =
     state0\<lparr>profiles := [''1'' \<mapsto> alice_profile\<lparr>coins := 3000\<rparr>],
            items := [tool_item ''rod'' ''Fishing Rod'' 2500 ''work_boost'' (1 / 10)]\<rparr>"

section \<open>The daily streak\<close>

lemma getProfile_stored:
  "getProfile u n now st = (p, st') \<Longrightarrow> profiles st' u = Some p"
  by (auto simp: getProfile_def split: option.splits)

lemma claimDaily_streak:
  "profiles st u = Some p0 \<Longrightarrow>
   persistedStreak (claimDaily now u p setts n st) u = Some n"
  by (simp add: claimDaily_def persistedStreak_def updateProfile_def Let_def
      logTransaction_def setCooldown_def)

text \<open>
  C4. A daily claim that passes the cooldown check stores a streak that depends on the
  hours since \<open>last_daily\<close>: it is 0 on a first claim (no \<open>last_daily\<close>), the previous
  streak plus 1 when the hours are between 24 and 48, both bounds included, and 0 when
  they are more than 48.
\<close>

theorem daily_streak_rule:
  assumes "fst (checkCooldown (uid usr) ''daily'' now st) = None"
  shows "(case last_daily (dailyProfile now usr st) of
            None \<Rightarrow> persistedStreak (daily now usr st) (uid usr) = Some 0
          | Some t \<Rightarrow>
              (24 \<le> hoursSince now t \<and> hoursSince now t \<le> 48 \<longrightarrow>
                 persistedStreak (daily now usr st) (uid usr)
                   = Some (daily_streak (dailyProfile now usr st) + 1)) \<and>
              (48 < hoursSince now t \<longrightarrow>
                 persistedStreak (daily now usr st) (uid usr) = Some 0))"
proof -
  obtain st1 where c: "checkCooldown (uid usr) ''daily'' now st = (None, st1)"
    using assms by (cases "checkCooldown (uid usr) ''daily'' now st") auto
  obtain p st2 where g: "getProfile (uid usr) (uname usr) now st1 = (p, st2)"
    by (cases "getProfile (uid usr) (uname usr) now st1") auto
  have ex: "profiles st2 (uid usr) = Some p" using g by (rule getProfile_stored)
  have dp: "dailyProfile now usr st = p" by (simp add: dailyProfile_def c g)
  show ?thesis
    using claimDaily_streak[OF ex]
    by (auto simp: dp daily_def c g newStreak_module_def split: option.splits)
qed

text \<open>
  The rule at its boundaries, for a previous streak of 3 and a last claim at time 0: a
  claim after exactly 24 hours and one after exactly 48 hours store 4, a claim after
  48.01 hours stores 0, and the first claim of a new profile stores 0.
\<close>

theorem daily_streak_rule_witness:
  "persistedStreak (daily 86400000 alice state0) ''1'' = Some 4 \<and>
   persistedStreak (daily 172800000 alice state0) ''1'' = Some 4 \<and>
   persistedStreak (daily 172836000 alice state0) ''1'' = Some 0 \<and>
   persistedStreak (daily 5 alice (state0\<lparr>profiles := Map.empty\<rparr>)) ''1'' = Some 0"
  using daily_streak_rule[of alice 86400000 state0]
    daily_streak_rule[of alice 172800000 state0]
    daily_streak_rule[of alice 172836000 state0]
    daily_streak_rule[of alice 5 "state0\<lparr>profiles := Map.empty\<rparr>"]
  by (simp add: state0_def alice_def alice_profile_def settings0_def
      checkCooldown_def getProfile_def dailyProfile_def hoursSince_def newProfile_def)

section \<open>The two daily handlers\<close>



section \<open>The level invariant\<close>

lemmas prim_defs = checkCooldown_def getProfile_def updateProfile_def logTransaction_def
  setCooldown_def getServerSettings_def attempt_def newProfile_def addToInventory_def
  removeFromInventory_def

lemma daily_level_step: "level_step (profiles st u) (profiles (snd (daily now usr st)) u)"
  by (auto simp: daily_def claimDaily_def prim_defs level_step_def level_ok_def Let_def
      split: option.splits prod.splits if_splits)

lemma work_level_step: "level_step (profiles st u) (profiles (snd (work now r usr st)) u)"
  by (auto simp: work_def prim_defs level_step_def level_ok_def Let_def
      split: option.splits prod.splits if_splits)

lemma pay_level_step: "level_step (profiles st u) (profiles (snd (pay now s r a st)) u)"
  by (auto simp: pay_def prim_defs level_step_def level_ok_def Let_def
      split: option.splits prod.splits if_splits)

lemma rob_level_step: "level_step (profiles st u) (profiles (snd (rob now r1 r2 s r st)) u)"
  by (auto simp: rob_def prim_defs level_step_def level_ok_def Let_def
      split: option.splits prod.splits if_splits)

lemma shop_level_step: "level_step (profiles st u) (profiles (snd (shop_handleButton now n usr i st)) u)"
  by (auto simp: shop_handleButton_def prim_defs level_step_def level_ok_def Let_def
      split: option.splits prod.splits if_splits)

lemma floor_of_int_div_1000: "\<lfloor>(of_int n :: rat) / 1000\<rfloor> = n div 1000"
  using floor_divide_of_int_eq[of n 1000, where ?'a = rat] by simp

lemma level_step_trans:
  "level_step a b \<Longrightarrow> level_step b c \<Longrightarrow> level_step a c"
  by (auto simp: level_step_def level_ok_def split: option.splits)

lemma level_step_refl: "level_step a a"
  by (auto simp: level_step_def split: option.splits)

lemma getProfile_level_step:
  "level_step (profiles st u) (profiles (snd (getProfile x n now st)) u)"
  by (auto simp: getProfile_def newProfile_def level_step_def level_ok_def split: option.splits)

lemma applyConsumable_level_step:
  assumes "applyConsumable now u p e st = Some (r, st')"
  shows "level_step (profiles st v) (profiles st' v)"
proof (cases "eeffect e = ''xp_grant''")
  case True
  with assms obtain n where n: "of_int (xp p) + evalue e = (of_int n :: rat)"
    by (auto simp: applyConsumable_def Let_def split: if_splits)
  have "updateProfile u (\<lambda>q. q\<lparr>xp := n, level := n div 1000 + 1\<rparr>) now st = Some st'"
    using assms True unfolding applyConsumable_def Let_def n
    by (simp add: floor_of_int_div_1000 split: if_splits)
  then show ?thesis
    by (auto simp: updateProfile_def level_step_def level_ok_def
        split: option.splits if_splits)
next
  case False
  with assms show ?thesis
    by (auto simp: applyConsumable_def updateProfile_def level_step_def level_ok_def Let_def
        split: option.splits if_splits)
qed

lemma inv_level_step:
  "level_step (profiles st u) (profiles (snd (inventory_handleButton now usr a i st)) u)"
proof (cases "find (\<lambda>x. inv_id (fst x) = i) (getInventory (uid usr) st)")
  case None
  then show ?thesis by (simp add: inventory_handleButton_def level_step_refl)
next
  case (Some invItem)
  obtain profile st1 where g: "getProfile (uid usr) (uname usr) now st = (profile, st1)"
    by (cases "getProfile (uid usr) (uname usr) now st") auto
  have s1: "level_step (profiles st u) (profiles st1 u)"
    using getProfile_level_step[of st u "uid usr" "uname usr" now] by (simp add: g)
  show ?thesis
  proof (cases "a = ''sell''")
    case True
    have "level_step (profiles st1 u) (profiles (snd (inventory_handleButton now usr a i st)) u)"
      using True
      by (auto simp: inventory_handleButton_def Some g Let_def attempt_def updateProfile_def
          removeFromInventory_def logTransaction_def level_step_def level_ok_def
          split: option.splits prod.splits if_splits)
    with s1 show ?thesis by (rule level_step_trans)
  next
    case False
    show ?thesis
    proof (cases "applyConsumable now (uid usr) profile (the (ieffect (snd invItem))) st1")
      case None
      with s1 False show ?thesis
        by (auto simp: inventory_handleButton_def Some g Let_def level_step_refl
            split: option.splits)
    next
      case (Some res)
      obtain r st2 where res: "res = (r, st2)" by (cases res) auto
      have s2: "level_step (profiles st1 u) (profiles st2 u)"
        using applyConsumable_level_step Some res by blast
      have s12: "level_step (profiles st u) (profiles st2 u)"
        using s1 s2 by (rule level_step_trans)
      show ?thesis
        using False s1 s12 Some res
        by (auto simp: inventory_handleButton_def \<open>find _ _ = _\<close> g Let_def level_step_refl
            removeFromInventory_def logTransaction_def
            split: option.splits if_splits)
    qed
  qed
qed


lemma step_level_step:
  "level_step (profiles st u) (profiles (snd (step now a st)) u)"
  by (cases a)
    (simp_all add: daily_level_step work_level_step pay_level_step rob_level_step
      shop_level_step inv_level_step)

text \<open>
  C1. Every action keeps the level invariant of every account: when
  \<open>level = xp div 1000 + 1\<close> holds for an account before the action, it holds after it.
  An action that leaves the experience of the account unchanged leaves its level
  unchanged, and an action that changes the experience stores the level of the formula
  with it.
\<close>

theorem level_invariant_preserved:
  assumes "level_invariant st u"
  shows "level_invariant (snd (step now a st)) u \<and>
         (\<forall>p p'. profiles st u = Some p \<longrightarrow> profiles (snd (step now a st)) u = Some p' \<longrightarrow>
            (if xp p' = xp p then level p' = level p else level p' = xp p' div 1000 + 1))"
  using assms step_level_step[of st u now a]
  by (auto simp: level_invariant_def level_step_def level_ok_def split: option.splits)

text \<open>
  A daily claim at 995 experience points: the claim stores 1005 points and level 2.
\<close>

theorem level_invariant_preserved_witness:
  "level_invariant state0 ''1'' \<and>
   level_invariant (snd (step 86400000 (Daily alice) state0)) ''1'' \<and>
   map_option (\<lambda>p. (xp p, level p)) (profiles (snd (step 86400000 (Daily alice) state0)) ''1'')
     = Some (1005, 2)"
  using level_invariant_preserved[of state0 "''1''" 86400000 "Daily alice"]
  by (simp add: level_invariant_def level_ok_def state0_def alice_def alice_profile_def
      settings0_def daily_def claimDaily_def newStreak_module_def hoursSince_def
      checkCooldown_def getProfile_def updateProfile_def logTransaction_def setCooldown_def
      getServerSettings_def Let_def)

section \<open>The experience multiplier is not read\<close>

text \<open>
  Each helper of database.js commutes with a change of the multiplier, and so does each
  handler.
\<close>

lemma xpm_fields [simp]:
  "profiles (with_xp_multiplier m st) = profiles st"
  "items (with_xp_multiplier m st) = items st"
  "inventory (with_xp_multiplier m st) = inventory st"
  "transactions (with_xp_multiplier m st) = transactions st"
  "cooldowns (with_xp_multiplier m st) = cooldowns st"
  "server_settings (with_xp_multiplier m st) = (server_settings st)\<lparr>xp_multiplier := m\<rparr>"
  by (simp_all add: with_xp_multiplier_def)

lemma xpm_updates [simp]:
  "(with_xp_multiplier m st)\<lparr>profiles := ps\<rparr> = with_xp_multiplier m (st\<lparr>profiles := ps\<rparr>)"
  "(with_xp_multiplier m st)\<lparr>inventory := iv\<rparr> = with_xp_multiplier m (st\<lparr>inventory := iv\<rparr>)"
  "(with_xp_multiplier m st)\<lparr>transactions := ts\<rparr> = with_xp_multiplier m (st\<lparr>transactions := ts\<rparr>)"
  "(with_xp_multiplier m st)\<lparr>cooldowns := cs\<rparr> = with_xp_multiplier m (st\<lparr>cooldowns := cs\<rparr>)"
  by (simp_all add: with_xp_multiplier_def)

lemma xpm_prims [simp]:
  "getInventory u (with_xp_multiplier m st) = getInventory u st"
  "getItems (with_xp_multiplier m st) = getItems st"
  "getServerSettings (with_xp_multiplier m st) = (getServerSettings st)\<lparr>xp_multiplier := m\<rparr>"
  "checkCooldown u c now (with_xp_multiplier m st)
     = apsnd (with_xp_multiplier m) (checkCooldown u c now st)"
  "getProfile u n now (with_xp_multiplier m st)
     = apsnd (with_xp_multiplier m) (getProfile u n now st)"
  "updateProfile u f now (with_xp_multiplier m st)
     = map_option (with_xp_multiplier m) (updateProfile u f now st)"
  "removeFromInventory u i q (with_xp_multiplier m st)
     = map_option (with_xp_multiplier m) (removeFromInventory u i q st)"
  "logTransaction u ty a t j md now (with_xp_multiplier m st)
     = with_xp_multiplier m (logTransaction u ty a t j md now st)"
  "setCooldown u c h now (with_xp_multiplier m st)
     = with_xp_multiplier m (setCooldown u c h now st)"
  "addToInventory n u i q (with_xp_multiplier m st)
     = with_xp_multiplier m (addToInventory n u i q st)"
  by (simp_all add: getInventory_def getItems_def getServerSettings_def checkCooldown_def
      getProfile_def updateProfile_def removeFromInventory_def logTransaction_def
      setCooldown_def addToInventory_def split: option.splits cong: if_cong)

lemma xpm_attempt [simp]:
  "attempt (updateProfile u f now) (with_xp_multiplier m st)
     = apsnd (with_xp_multiplier m) (attempt (updateProfile u f now) st)"
  "attempt (removeFromInventory u i q) (with_xp_multiplier m st)
     = apsnd (with_xp_multiplier m) (attempt (removeFromInventory u i q) st)"
  by (simp_all add: attempt_def split: option.splits)

lemma xpm_settings [simp]:
  "actualSuccessRate (s\<lparr>xp_multiplier := m\<rparr>) ri ti = actualSuccessRate s ri ti"
  "baseAmount_of (s\<lparr>xp_multiplier := m\<rparr>) r = baseAmount_of s r"
  "penaltyAmount_of p (s\<lparr>xp_multiplier := m\<rparr>) = penaltyAmount_of p s"
  by (simp_all add: actualSuccessRate_def baseAmount_of_def penaltyAmount_of_def)

lemma claimDaily_xpm [simp]:
  "claimDaily now u p (s\<lparr>xp_multiplier := m\<rparr>) n (with_xp_multiplier m st)
     = apsnd (with_xp_multiplier m) (claimDaily now u p s n st)"
  by (simp add: claimDaily_def Let_def split: option.splits)

lemma applyConsumable_xpm [simp]:
  "applyConsumable now u p e (with_xp_multiplier m st)
     = map_option (apsnd (with_xp_multiplier m)) (applyConsumable now u p e st)"
  by (simp add: applyConsumable_def Let_def option.map_comp comp_def)












section \<open>Payments that the sender cannot afford\<close>

lemma getProfile_balance:
  "coins (fst (getProfile u n now st)) = balance st u"
  "balance (snd (getProfile u n now st)) v = balance st v"
  "profiles st v = Some p \<Longrightarrow> profiles (snd (getProfile u n now st)) v = Some p"
  "transactions (snd (getProfile u n now st)) = transactions st"
  "inventory (snd (getProfile u n now st)) = inventory st"
  "cooldowns (snd (getProfile u n now st)) = cooldowns st"
  by (auto simp: getProfile_def newProfile_def balance_def split: option.splits)




section \<open>Balances stay non-negative\<close>












lemma frame_getProfile [simp]:
  "server_settings (snd (getProfile v n now st)) = server_settings st"
  "items (snd (getProfile v n now st)) = items st"
  "inventory (snd (getProfile v n now st)) = inventory st"
  by (auto simp: getProfile_def split: option.splits)






lemma in_map_filterD:
  "x \<in> set (List.map_filter f xs) \<Longrightarrow> \<exists>r\<in>set xs. f r = Some x"
  by (induction xs) (auto split: option.splits)








section \<open>The loops over the inventory\<close>








section \<open>The reply of work\<close>


lemma checkCooldown_profiles [simp]:
  "profiles (snd (checkCooldown v c now st)) = profiles st"
  "transactions (snd (checkCooldown v c now st)) = transactions st"
  by (auto simp: checkCooldown_def split: option.splits)

lemma balance_checkCooldown [simp]:
  "balance (snd (checkCooldown v c now st)) u = balance st u"
  by (simp add: balance_def)


lemma xp_of_checkCooldown [simp]:
  "xp_of (snd (checkCooldown v c now st)) u = xp_of st u"
  by (simp add: xp_of_def)





section \<open>Work boost\<close>



section \<open>Work cooldown\<close>





section \<open>Robbery success rate\<close>





section \<open>Selling, and buying then selling\<close>

lemma in_map_filterI:
  "r \<in> set xs \<Longrightarrow> f r = Some x \<Longrightarrow> x \<in> set (List.map_filter f xs)"
  by (induction xs) (auto split: option.splits)

lemma getInventory_member:
  assumes "x \<in> set (getInventory u st)"
  shows "fst x \<in> set (inventory st)" "inv_user_id (fst x) = u"
    "iid (snd x) = inv_item_id (fst x)" "snd x \<in> set (items st)"
proof -
  from assms obtain r where r: "r \<in> set (inventory st)"
      and f: "(if inv_user_id r = u
               then map_option (Pair r) (find (\<lambda>i. iid i = inv_item_id r) (items st))
               else None) = Some x"
    unfolding getInventory_def by (auto dest!: in_map_filterD)
  then have u: "inv_user_id r = u" by (auto split: if_splits)
  with f obtain i where i: "find (\<lambda>i. iid i = inv_item_id r) (items st) = Some i" "x = (r, i)"
    by auto
  show "fst x \<in> set (inventory st)" using r i by simp
  show "inv_user_id (fst x) = u" using u i by simp
  show "iid (snd x) = inv_item_id (fst x)" using i by (auto simp: find_Some_iff)
  show "snd x \<in> set (items st)" using i by (auto simp: find_Some_iff)
qed

lemma find_member: "find P xs = Some x \<Longrightarrow> x \<in> set xs \<and> P x"
  by (auto simp: find_Some_iff)

lemma find_exists: "x \<in> set xs \<Longrightarrow> P x \<Longrightarrow> find P xs \<noteq> None"
  by (auto simp: find_None_iff)

lemma balance_frame:
  "profiles st' = profiles st \<Longrightarrow> balance st' u = balance st u"
  by (simp add: balance_def)

lemma sell_result:
  assumes f: "find (\<lambda>i. inv_id (fst i) = invItemId) (getInventory (uid usr) st) = Some (row, item)"
  shows "fst (inventory_handleButton now usr ''sell'' invItemId st) =
           Inr (ItemSold (sellPrice_of item) (balance st (uid usr) + sellPrice_of item))"
    and "balance (snd (inventory_handleButton now usr ''sell'' invItemId st)) (uid usr) =
           balance st (uid usr) + sellPrice_of item"
proof -
  obtain p st1 where g: "getProfile (uid usr) (uname usr) now st = (p, st1)"
    by (cases "getProfile (uid usr) (uname usr) now st") auto
  have ex: "profiles st1 (uid usr) = Some p" using g by (rule getProfile_stored)
  have cp: "coins p = balance st (uid usr)"
    using getProfile_balance(1)[of "uid usr" "uname usr" now st] by (simp add: g)
  have iv: "inventory st1 = inventory st"
    using frame_getProfile(3)[of "uid usr" "uname usr" now st] by (simp add: g)
  from f have m: "(row, item) \<in> set (getInventory (uid usr) st)"
    by (auto dest: find_member)
  from getInventory_member[OF m]
  have row: "row \<in> set (inventory st)" "inv_user_id row = uid usr" "iid item = inv_item_id row"
    by simp_all
  then have fr: "find (\<lambda>r. inv_user_id r = uid usr \<and> inv_item_id r = iid item) (inventory st)
                   \<noteq> None"
    by (intro find_exists[of row]) simp_all
  then obtain existing where
    e: "find (\<lambda>r. inv_user_id r = uid usr \<and> inv_item_id r = iid item) (inventory st)
          = Some existing"
    by auto
  show "fst (inventory_handleButton now usr ''sell'' invItemId st) =
           Inr (ItemSold (sellPrice_of item) (balance st (uid usr) + sellPrice_of item))"
    using ex e
    by (simp add: inventory_handleButton_def f g Let_def attempt_def updateProfile_def
        removeFromInventory_def iv cp)
  show "balance (snd (inventory_handleButton now usr ''sell'' invItemId st)) (uid usr) =
           balance st (uid usr) + sellPrice_of item"
    using ex e
    by (simp add: inventory_handleButton_def f g Let_def attempt_def updateProfile_def
        removeFromInventory_def iv cp logTransaction_def balance_def)
qed

lemma buy_result:
  assumes f: "find (\<lambda>i. iid i = itemId) (getItems st) = Some item"
    and c: "price item \<le> balance st (uid usr)"
  shows "fst (shop_handleButton now newId usr itemId st) =
           Inr (PurchaseSuccessful (price item) (balance st (uid usr) - price item))"
    and "balance (snd (shop_handleButton now newId usr itemId st)) (uid usr) =
           balance st (uid usr) - price item"
    and "\<exists>row. (row, item) \<in> set (getInventory (uid usr)
                                     (snd (shop_handleButton now newId usr itemId st)))"
proof -
  obtain p st1 where g: "getProfile (uid usr) (uname usr) now st = (p, st1)"
    by (cases "getProfile (uid usr) (uname usr) now st") auto
  have ex: "profiles st1 (uid usr) = Some p" using g by (rule getProfile_stored)
  have cp: "coins p = balance st (uid usr)"
    using getProfile_balance(1)[of "uid usr" "uname usr" now st] by (simp add: g)
  have fr: "inventory st1 = inventory st" "items st1 = items st"
    using frame_getProfile(2,3)[of "uid usr" "uname usr" now st] by (simp_all add: g)
  show "fst (shop_handleButton now newId usr itemId st) =
           Inr (PurchaseSuccessful (price item) (balance st (uid usr) - price item))"
    using ex c
    by (simp add: shop_handleButton_def f g cp attempt_def updateProfile_def)
  show "balance (snd (shop_handleButton now newId usr itemId st)) (uid usr) =
           balance st (uid usr) - price item"
    using ex c
    by (simp add: shop_handleButton_def f g cp attempt_def updateProfile_def
        logTransaction_def addToInventory_def balance_def split: option.splits)
  define st3 where "st3 = snd (shop_handleButton now newId usr itemId st)"
  have it: "items st3 = items st"
    using ex c
    by (simp add: st3_def shop_handleButton_def f g cp attempt_def updateProfile_def
        logTransaction_def addToInventory_def fr split: option.splits)
  have "\<exists>r \<in> set (inventory st3). inv_user_id r = uid usr \<and> inv_item_id r = itemId"
  proof (cases "find (\<lambda>r. inv_user_id r = uid usr \<and> inv_item_id r = itemId) (inventory st)")
    case None
    then show ?thesis
      using ex c
      by (simp add: st3_def shop_handleButton_def f g cp attempt_def updateProfile_def
          logTransaction_def addToInventory_def fr)
  next
    case (Some existing)
    then have "existing \<in> set (inventory st)"
        "inv_user_id existing = uid usr \<and> inv_item_id existing = itemId"
      by (auto dest: find_member)
    then have "existing\<lparr>quantity := quantity existing + 1\<rparr> \<in>
        set (map (\<lambda>r. if inv_user_id r = uid usr \<and> inv_item_id r = itemId
                       then r\<lparr>quantity := quantity existing + 1\<rparr> else r) (inventory st))"
      by (auto simp: image_iff intro!: bexI[of _ existing])
    then show ?thesis
      using ex c Some \<open>inv_user_id existing = uid usr \<and> inv_item_id existing = itemId\<close>
      by (auto simp: st3_def shop_handleButton_def f g cp attempt_def updateProfile_def
          logTransaction_def addToInventory_def fr intro!: bexI[of _ "existing\<lparr>quantity := quantity existing + 1\<rparr>"])
  qed
  then obtain r where r: "r \<in> set (inventory st3)" "inv_user_id r = uid usr"
      "inv_item_id r = itemId"
    by auto
  have "(r, item) \<in> set (getInventory (uid usr) st3)"
    unfolding getInventory_def
    using r f by (intro in_map_filterI[of r]) (simp_all add: it getItems_def)
  then show "\<exists>row. (row, item) \<in> set (getInventory (uid usr)
                                     (snd (shop_handleButton now newId usr itemId st)))"
    unfolding st3_def by blast
qed


lemma sellPrice_lt: "0 < price item \<Longrightarrow> sellPrice_of item < price item"
  by (simp add: sellPrice_of_def floor_less_iff)

text \<open>
  C8. The sell button credits the price times 0.6, rounded down, whatever the item. A
  purchase that the balance covers debits the price and leaves the item in the
  inventory; selling that item next leaves the balance at the first balance minus the
  difference of the price and the sell price, which is less than the first balance for
  every positive price.
\<close>

theorem sell_price_and_round_trip:
  "(find (\<lambda>i. inv_id (fst i) = invItemId) (getInventory (uid usr) st) = Some (row, item) \<longrightarrow>
      fst (step now (InventoryButton usr ''sell'' invItemId) st) =
        Inr (ItemSold \<lfloor>of_int (price item) * (6 / 10 :: rat)\<rfloor>
               (balance st (uid usr) + \<lfloor>of_int (price item) * (6 / 10 :: rat)\<rfloor>)) \<and>
      balance (snd (step now (InventoryButton usr ''sell'' invItemId) st)) (uid usr) =
        balance st (uid usr) + \<lfloor>of_int (price item) * (6 / 10 :: rat)\<rfloor>) \<and>
   (find (\<lambda>i. iid i = itemId) (getItems st) = Some item \<and> 0 < price item \<and>
    price item \<le> balance st (uid usr) \<longrightarrow>
      fst (step now (ShopBuy usr itemId newId) st) =
        Inr (PurchaseSuccessful (price item) (balance st (uid usr) - price item)) \<and>
      balance (snd (step now (ShopBuy usr itemId newId) st)) (uid usr) =
        balance st (uid usr) - price item \<and>
      (\<exists>r. (r, item) \<in> set (getInventory (uid usr) (snd (step now (ShopBuy usr itemId newId) st)))) \<and>
      (find (\<lambda>i. inv_id (fst i) = invItemId)
         (getInventory (uid usr) (snd (step now (ShopBuy usr itemId newId) st))) = Some (row, item) \<longrightarrow>
         balance (snd (step later (InventoryButton usr ''sell'' invItemId)
                         (snd (step now (ShopBuy usr itemId newId) st)))) (uid usr) =
           balance st (uid usr) - (price item - \<lfloor>of_int (price item) * (6 / 10 :: rat)\<rfloor>) \<and>
         balance (snd (step later (InventoryButton usr ''sell'' invItemId)
                         (snd (step now (ShopBuy usr itemId newId) st)))) (uid usr) <
           balance st (uid usr)))"
proof -
  have sell: "fst (step t (InventoryButton usr ''sell'' invItemId) s) =
        Inr (ItemSold \<lfloor>of_int (price item) * (6 / 10 :: rat)\<rfloor>
               (balance s (uid usr) + \<lfloor>of_int (price item) * (6 / 10 :: rat)\<rfloor>)) \<and>
      balance (snd (step t (InventoryButton usr ''sell'' invItemId) s)) (uid usr) =
        balance s (uid usr) + \<lfloor>of_int (price item) * (6 / 10 :: rat)\<rfloor>"
    if "find (\<lambda>i. inv_id (fst i) = invItemId) (getInventory (uid usr) s) = Some (row, item)"
    for t s
    using sell_result[OF that, of t] by (simp add: sellPrice_of_def)
  have buy: "fst (step now (ShopBuy usr itemId newId) st) =
        Inr (PurchaseSuccessful (price item) (balance st (uid usr) - price item)) \<and>
      balance (snd (step now (ShopBuy usr itemId newId) st)) (uid usr) =
        balance st (uid usr) - price item \<and>
      (\<exists>r. (r, item) \<in> set (getInventory (uid usr) (snd (step now (ShopBuy usr itemId newId) st))))"
    if "find (\<lambda>i. iid i = itemId) (getItems st) = Some item"
      "price item \<le> balance st (uid usr)"
    using buy_result[OF that, of now newId] by simp
  have lt: "\<lfloor>of_int (price item) * (6 / 10 :: rat)\<rfloor> < price item" if "0 < price item"
    using sellPrice_lt[OF that] by (simp add: sellPrice_of_def)
  show ?thesis
    using sell[of st now] sell[of "snd (step now (ShopBuy usr itemId newId) st)" later] buy lt
    by auto
qed

text \<open>
  Alice buys the rod for 2500 coins and sells it for 1500: from 3000 coins to 500, then
  to 2000.
\<close>

theorem sell_price_and_round_trip_witness:
  "find (\<lambda>i. iid i = ''rod'') (getItems state_shop)
     = Some (tool_item ''rod'' ''Fishing Rod'' 2500 ''work_boost'' (1 / 10)) \<and>
   balance state_shop ''1'' = 3000 \<and>
   find (\<lambda>i. inv_id (fst i) = ''n1'')
     (getInventory ''1'' (snd (step 0 (ShopBuy alice ''rod'' ''n1'') state_shop)))
     = Some (\<lparr>inv_id = ''n1'', inv_user_id = ''1'', inv_item_id = ''rod'', quantity = 1\<rparr>,
             tool_item ''rod'' ''Fishing Rod'' 2500 ''work_boost'' (1 / 10)) \<and>
   balance (snd (step 0 (ShopBuy alice ''rod'' ''n1'') state_shop)) ''1'' = 500 \<and>
   balance (snd (step 1 (InventoryButton alice ''sell'' ''n1'')
                   (snd (step 0 (ShopBuy alice ''rod'' ''n1'') state_shop)))) ''1'' = 2000"
proof -
  have u: "uid alice = ''1''" by (simp add: alice_def)
  have f: "find (\<lambda>i. iid i = ''rod'') (getItems state_shop)
     = Some (tool_item ''rod'' ''Fishing Rod'' 2500 ''work_boost'' (1 / 10))"
    by (simp add: getItems_def state_shop_def state0_def tool_item_def)
  have b: "balance state_shop ''1'' = 3000"
    by (simp add: balance_def state_shop_def state0_def alice_profile_def)
  have p: "price (tool_item ''rod'' ''Fishing Rod'' 2500 ''work_boost'' (1 / 10)) = 2500"
    by (simp add: tool_item_def)
  have iv: "find (\<lambda>i. inv_id (fst i) = ''n1'')
     (getInventory ''1'' (snd (step 0 (ShopBuy alice ''rod'' ''n1'') state_shop)))
     = Some (\<lparr>inv_id = ''n1'', inv_user_id = ''1'', inv_item_id = ''rod'', quantity = 1\<rparr>,
             tool_item ''rod'' ''Fishing Rod'' 2500 ''work_boost'' (1 / 10))"
    by (simp add: shop_handleButton_def getItems_def getProfile_def attempt_def
        updateProfile_def logTransaction_def addToInventory_def getInventory_def
        state_shop_def state0_def alice_def alice_profile_def tool_item_def)
  from sell_price_and_round_trip[where invItemId = "''n1''" and usr = alice
      and st = state_shop and now = 0 and later = 1 and itemId = "''rod''"
      and newId = "''n1''"
      and row = "\<lparr>inv_id = ''n1'', inv_user_id = ''1'', inv_item_id = ''rod'', quantity = 1\<rparr>"
      and item = "tool_item ''rod'' ''Fishing Rod'' 2500 ''work_boost'' (1 / 10)"]
  show ?thesis
    using f b iv by (simp add: u p)
qed

end
